theory Spec2Isabelle
  imports Main "HOL-Library.Word"
begin

section \<open>Python values\<close>

text \<open>
  The values that travel between the tool handlers, the transport and
  \<open>format_response\<close> are JSON-compatible Python values. A \<open>str\<close> is modelled by
  the bytes of its UTF-8 encoding; a \<open>dict\<close> by an association list in insertion order
  (a Python dict has pairwise distinct keys, and every dict of this program has \<open>str\<close>
  keys); an \<open>int\<close> by an unbounded integer; a \<open>float\<close> by its IEEE-754 binary64
  bit pattern. A function that can raise returns a sum, the exception on the left.
\<close>

type_synonym pyfloat = "64 word"

datatype pyval =
    PNone
  | PBool bool
  | PInt int
  | PFloat pyfloat
  | PStr string
  | PList "pyval list"
  | PDict "(string \<times> pyval) list"

text \<open>
  Exceptions. The three classes a handler may catch carry the text \<open>str(e)\<close>;
  \<open>OtherException\<close> stands for every exception outside these classes that the
  transport may raise (a timeout, an HTTP-client error).
\<close>

datatype py_exc =
    ConnectionError string
  | ValueError string
  | RuntimeError string
  | OtherException string
  | AttributeError
  | TypeError

text \<open>
  Two built-ins depend on tables of the interpreter that are no part of this program:
  \<open>float.__repr__\<close> (the shortest decimal that reads back as the same double) and
  \<open>repr\<close> of a \<open>str\<close> (which escapes by the Unicode database). They are parameters
  of the model.
\<close>

record runtime =
  float_repr :: "pyfloat \<Rightarrow> string"
  str_repr :: "string \<Rightarrow> string"

subsection \<open>Characters and decimal numerals\<close>

definition newline :: char where
  "newline = CHR 0x0A"

definition dquote :: char where
  "dquote = CHR 0x22"

definition bslash :: char where
  "bslash = CHR 0x5C"

definition hex_digit :: "nat \<Rightarrow> char" where
  "hex_digit d = ''0123456789abcdef'' ! (d mod 16)"

fun dec_nat :: "nat \<Rightarrow> string" where
  "dec_nat n = (if n < 10 then [hex_digit n] else dec_nat (n div 10) @ [hex_digit (n mod 10)])"

declare dec_nat.simps [simp del]

definition dec_int :: "int \<Rightarrow> string" where
  "dec_int i = (if i < 0 then CHR ''-'' # dec_nat (nat (- i)) else dec_nat (nat i))"

subsection \<open>\<open>str.join\<close>, \<open>str.lower\<close>, truth values\<close>

fun str_join :: "string \<Rightarrow> string list \<Rightarrow> string" where
  "str_join sep [] = []"
| "str_join sep [x] = x"
| "str_join sep (x # y # ys) = x @ sep @ str_join sep (y # ys)"

text \<open>\<open>sep.join(parts)\<close> raises \<open>TypeError\<close> when an item of \<open>parts\<close> is not a \<open>str\<close>.\<close>

fun the_strs :: "pyval list \<Rightarrow> string list option" where
  "the_strs [] = Some []"
| "the_strs (PStr s # vs) = (case the_strs vs of None \<Rightarrow> None | Some ss \<Rightarrow> Some (s # ss))"
| "the_strs (_ # vs) = None"

definition py_join :: "string \<Rightarrow> pyval list \<Rightarrow> py_exc + pyval" where
  "py_join sep parts =
     (case the_strs parts of None \<Rightarrow> Inl TypeError | Some ss \<Rightarrow> Inr (PStr (str_join sep ss)))"

text \<open>
  \<open>str.lower\<close> on the ASCII letters. The program only compares the lowered text with
  the ASCII constants \<open>"active"\<close> and \<open>"healthy"\<close>, and no character outside ASCII
  lowers to a letter of these two words, so the comparison is decided as in Python.
\<close>

definition lower_char :: "char \<Rightarrow> char" where
  "lower_char c =
     (case map_of (zip ''ABCDEFGHIJKLMNOPQRSTUVWXYZ'' ''abcdefghijklmnopqrstuvwxyz'') c of
        None \<Rightarrow> c
      | Some l \<Rightarrow> l)"

definition str_lower :: "string \<Rightarrow> string" where
  "str_lower s = map lower_char s"

text \<open>\<open>v.lower()\<close>: only a \<open>str\<close> has the method.\<close>

fun py_lower :: "pyval \<Rightarrow> py_exc + string" where
  "py_lower (PStr s) = Inr (str_lower s)"
| "py_lower _ = Inl AttributeError"

text \<open>\<open>bool(v)\<close>, the test of \<open>if v:\<close> and of \<open>v or d\<close>.\<close>

definition float_is_zero :: "pyfloat \<Rightarrow> bool" where
  "float_is_zero f = (f = 0 \<or> f = 0x8000000000000000)"

fun truthy :: "pyval \<Rightarrow> bool" where
  "truthy PNone = False"
| "truthy (PBool b) = b"
| "truthy (PInt i) = (i \<noteq> 0)"
| "truthy (PFloat f) = (\<not> float_is_zero f)"
| "truthy (PStr s) = (s \<noteq> [])"
| "truthy (PList xs) = (xs \<noteq> [])"
| "truthy (PDict kvs) = (kvs \<noteq> [])"

subsection \<open>\<open>str\<close>, \<open>repr\<close> and \<open>"{}".format\<close>\<close>

fun py_repr :: "runtime \<Rightarrow> pyval \<Rightarrow> string" where
  "py_repr rt PNone = ''None''"
| "py_repr rt (PBool b) = (if b then ''True'' else ''False'')"
| "py_repr rt (PInt i) = dec_int i"
| "py_repr rt (PFloat f) = float_repr rt f"
| "py_repr rt (PStr s) = str_repr rt s"
| "py_repr rt (PList xs) = ''['' @ str_join '', '' (map (py_repr rt) xs) @ '']''"
| "py_repr rt (PDict kvs) =
     ''{'' @ str_join '', '' (map (\<lambda>(k, v). str_repr rt k @ '': '' @ py_repr rt v) kvs) @ ''}''"

text \<open>\<open>str(v)\<close>; \<open>"{}".format(v)\<close> is \<open>str(v)\<close> for each of these types.\<close>

fun py_str :: "runtime \<Rightarrow> pyval \<Rightarrow> string" where
  "py_str rt (PStr s) = s"
| "py_str rt v = py_repr rt v"

subsection \<open>Dictionaries\<close>

definition py_in :: "string \<Rightarrow> (string \<times> pyval) list \<Rightarrow> bool" where
  "py_in k d = (map_of d k \<noteq> None)"

text \<open>\<open>d[k] = v\<close>: an existing key keeps its place, a new key goes to the end.\<close>

fun py_setitem :: "string \<Rightarrow> pyval \<Rightarrow> (string \<times> pyval) list \<Rightarrow> (string \<times> pyval) list" where
  "py_setitem k v [] = [(k, v)]"
| "py_setitem k v ((k', v') # d) =
     (if k = k' then (k, v) # d else (k', v') # py_setitem k v d)"

definition py_get :: "(string \<times> pyval) list \<Rightarrow> string \<Rightarrow> pyval \<Rightarrow> pyval" where
  "py_get d k dflt = (case map_of d k of None \<Rightarrow> dflt | Some v \<Rightarrow> v)"

subsection \<open>\<open>json.dumps(v, indent=2, ensure_ascii=False, default=str)\<close>\<close>

text \<open>
  With \<open>ensure_ascii=False\<close> the encoder escapes the quote, the backslash and the
  control characters below \<open>0x20\<close>, and writes every other character as it is.
\<close>

definition json_escape :: "char \<Rightarrow> string" where
  "json_escape c =
     (if c = dquote then [bslash, dquote]
      else if c = bslash then [bslash, bslash]
      else if c = CHR 0x08 then [bslash, CHR ''b'']
      else if c = CHR 0x0C then [bslash, CHR ''f'']
      else if c = newline then [bslash, CHR ''n'']
      else if c = CHR 0x0D then [bslash, CHR ''r'']
      else if c = CHR 0x09 then [bslash, CHR ''t'']
      else if (of_char c :: nat) < 32
        then [bslash, CHR ''u'', CHR ''0'', CHR ''0'',
              hex_digit ((of_char c :: nat) div 16), hex_digit (of_char c)]
      else [c])"

definition json_string :: "string \<Rightarrow> string" where
  "json_string s = dquote # concat (map json_escape s) @ [dquote]"

definition json_float :: "runtime \<Rightarrow> pyfloat \<Rightarrow> string" where
  "json_float rt f =
     (if and f 0x7FF0000000000000 = 0x7FF0000000000000 \<and> and f 0x000FFFFFFFFFFFFF \<noteq> 0
        then ''NaN''
      else if f = 0x7FF0000000000000 then ''Infinity''
      else if f = 0xFFF0000000000000 then ''-Infinity''
      else float_repr rt f)"

definition json_nl :: "nat \<Rightarrow> string" where
  "json_nl lvl = newline # replicate (2 * lvl) CHR '' ''"

text \<open>
  The encoder at nesting depth \<open>lvl\<close>. Every value of \<^typ>\<open>pyval\<close> is serialisable,
  so the \<open>default\<close> hook is never called.
\<close>

fun json_enc :: "runtime \<Rightarrow> nat \<Rightarrow> pyval \<Rightarrow> string" where
  "json_enc rt lvl PNone = ''null''"
| "json_enc rt lvl (PBool b) = (if b then ''true'' else ''false'')"
| "json_enc rt lvl (PInt i) = dec_int i"
| "json_enc rt lvl (PFloat f) = json_float rt f"
| "json_enc rt lvl (PStr s) = json_string s"
| "json_enc rt lvl (PList xs) =
     (if xs = [] then ''[]''
      else ''['' @ json_nl (Suc lvl)
           @ str_join ('','' @ json_nl (Suc lvl)) (map (json_enc rt (Suc lvl)) xs)
           @ json_nl lvl @ '']'')"
| "json_enc rt lvl (PDict kvs) =
     (if kvs = [] then ''{}''
      else ''{'' @ json_nl (Suc lvl)
           @ str_join ('','' @ json_nl (Suc lvl))
               (map (\<lambda>(k, v). json_string k @ '': '' @ json_enc rt (Suc lvl) v) kvs)
           @ json_nl lvl @ ''}'')"

definition json_dumps :: "runtime \<Rightarrow> pyval \<Rightarrow> string" where
  "json_dumps rt v = json_enc rt 0 v"

section \<open>\<open>tools/utils.py\<close>: \<open>format_response\<close>\<close>

text \<open>
  The envelope test
  \<open>"data" in response and isinstance(response["data"], dict) and len(response) <= 2\<close>
  and the assignment \<open>response = response["data"]\<close>.
\<close>

definition unwrap :: "(string \<times> pyval) list \<Rightarrow> (string \<times> pyval) list" where
  "unwrap response =
     (case map_of response ''data'' of
        Some (PDict inner) \<Rightarrow> if length response \<le> 2 then inner else response
      | _ \<Rightarrow> response)"

text \<open>The branch under \<open>if "error" in response:\<close>.\<close>

definition error_report :: "runtime \<Rightarrow> (string \<times> pyval) list \<Rightarrow> py_exc + pyval" where
  "error_report rt response =
     (let error_msg = py_get response ''error'' (PStr ''Unknown error occurred'');
          traceback_info = py_get response ''traceback'' (PStr '''');
          error_parts = [PStr ''=== ERROR ==='', PStr (''Error: '' @ py_str rt error_msg)];
          error_parts = (if truthy traceback_info
                         then error_parts @ [PStr (newline # ''=== TRACEBACK ===''), traceback_info]
                         else error_parts)
      in py_join [newline] error_parts)"

text \<open>
  The branch under \<open>if status == "active" and health == "healthy":\<close>. A test
  \<open>k in response\<close> that guards the read \<open>response[k]\<close> is one case distinction
  on the lookup.
\<close>

definition status_report :: "runtime \<Rightarrow> (string \<times> pyval) list \<Rightarrow> py_exc + pyval" where
  "status_report rt response =
     (let status_parts =
            [PStr ''=== REVIT STATUS ==='',
             PStr (''Status: '' @ py_str rt (py_get response ''status'' (PStr ''Unknown''))),
             PStr (''Health: '' @ py_str rt (py_get response ''health'' (PStr ''Unknown'')))];
          status_parts = (case map_of response ''api_name'' of
                            None \<Rightarrow> status_parts
                          | Some api_name \<Rightarrow>
                              status_parts @ [PStr (''API: '' @ py_str rt api_name)]);
          status_parts = (case map_of response ''document_title'' of
                            None \<Rightarrow> status_parts
                          | Some document_title \<Rightarrow>
                              status_parts @ [PStr (''Document: '' @ py_str rt document_title)])
      in py_join [newline] status_parts)"

text \<open>
  The body of \<open>format_response\<close> from the test for \<open>error\<close> on, that is everything
  after the envelope has been unwrapped.
\<close>

definition format_rules :: "runtime \<Rightarrow> (string \<times> pyval) list \<Rightarrow> py_exc + pyval" where
  "format_rules rt response =
     (if py_in ''error'' response then error_report rt response
      else case py_lower (py_get response ''status'' (PStr '''')) of
        Inl e \<Rightarrow> Inl e
      | Inr status \<Rightarrow>
         (case py_lower (py_get response ''health'' (PStr '''')) of
            Inl e \<Rightarrow> Inl e
          | Inr health \<Rightarrow>
             (case map_of response ''output'' of
                Some output \<Rightarrow> Inr output
              | None \<Rightarrow>
                 if status = ''active'' \<and> health = ''healthy'' then status_report rt response
                 else Inr (PStr (json_dumps rt (PDict response))))))"

fun format_response :: "runtime \<Rightarrow> pyval \<Rightarrow> py_exc + pyval" where
  "format_response rt (PDict response) = format_rules rt (unwrap response)"
| "format_response rt v = Inr (PStr (py_str rt v))"

section \<open>Tool handlers\<close>

text \<open>
  A handler receives the arguments the caller supplied, an optional logging context and
  the transport function it was registered with. An optional parameter the caller left
  unsupplied is bound to its declared default. The context is forwarded to the transport
  and receives the log entries; the handlers only test it for presence (\<open>if ctx:\<close>).
  The transport either returns a value or raises; \<open>await\<close> is an ordinary call here. A
  handler yields the log entries it wrote and its result or the exception that leaves it.
\<close>

datatype log_entry = Info string | Error string

record request =
  path :: string
  payload :: "(string \<times> pyval) list"
  has_ctx :: bool
  timeout :: "pyfloat option"

type_synonym transport = "request \<Rightarrow> py_exc + pyval"

type_synonym outcome = "log_entry list \<times> (py_exc + pyval)"

definition arg :: "pyval option \<Rightarrow> pyval \<Rightarrow> pyval" where
  "arg supplied dflt = (case supplied of None \<Rightarrow> dflt | Some v \<Rightarrow> v)"

text \<open>\<open>a or b\<close>.\<close>

definition py_or :: "pyval \<Rightarrow> pyval \<Rightarrow> pyval" where
  "py_or a b = (if truthy a then a else b)"

text \<open>\<open>except (ConnectionError, ValueError, RuntimeError) as e\<close> and \<open>str(e)\<close>.\<close>

fun caught :: "py_exc \<Rightarrow> string option" where
  "caught (ConnectionError m) = Some m"
| "caught (ValueError m) = Some m"
| "caught (RuntimeError m) = Some m"
| "caught _ = None"

subsection \<open>\<open>code_execution_tools.py\<close>: \<open>execute_revit_code\<close>\<close>

text \<open>
  Parameters: \<open>code\<close>, \<open>description = "Code execution"\<close>, \<open>use_transaction = True\<close>.
  The whole body is inside \<open>try\<close>.
\<close>

definition execute_revit_code ::
  "runtime \<Rightarrow> bool \<Rightarrow> transport \<Rightarrow> pyval \<Rightarrow> pyval option \<Rightarrow> pyval option \<Rightarrow> outcome" where
  "execute_revit_code rt ctx revit_post code description' use_transaction' =
     (let description = arg description' (PStr ''Code execution'');
          use_transaction = arg use_transaction' (PBool True);
          payload = [(''code'', code), (''description'', description),
                     (''use_transaction'', use_transaction)];
          trans_info = (if truthy use_transaction then ''with transaction''
                        else ''without transaction'');
          log = (if ctx
                 then [Info (''Executing code ('' @ trans_info @ ''): '' @ py_str rt description)]
                 else []);
          result =
            (case revit_post \<lparr>path = ''/execute_code/'', payload = payload, has_ctx = ctx,
                               timeout = Some 0x404E000000000000\<rparr> of
               Inl e \<Rightarrow> Inl e
             | Inr response \<Rightarrow> format_response rt response)
      in case result of
           Inr text \<Rightarrow> (log, Inr text)
         | Inl e \<Rightarrow>
            (case caught e of
               None \<Rightarrow> (log, Inl e)
             | Some m \<Rightarrow>
                (let error_msg = ''Error during code execution: '' @ m
                 in (if ctx then log @ [Error error_msg] else log, Inr (PStr error_msg)))))"

subsection \<open>\<open>family_tools.py\<close>: \<open>place_family\<close>\<close>

text \<open>
  Parameters: \<open>family_name\<close>, \<open>type_name = None\<close>, \<open>x = y = z = 0.0\<close>,
  \<open>rotation = 0.0\<close>, \<open>level_name = None\<close>, \<open>properties = None\<close>.
  The handler has no \<open>try\<close> and writes no log entry.
\<close>

definition place_family_data ::
  "pyval \<Rightarrow> pyval option \<Rightarrow> pyval option \<Rightarrow> pyval option \<Rightarrow> pyval option \<Rightarrow> pyval option
     \<Rightarrow> pyval option \<Rightarrow> pyval option \<Rightarrow> (string \<times> pyval) list" where
  "place_family_data family_name type_name' x' y' z' rotation' level_name' properties' =
     (let type_name = arg type_name' PNone;
          x = arg x' (PFloat 0); y = arg y' (PFloat 0); z = arg z' (PFloat 0);
          rotation = arg rotation' (PFloat 0);
          level_name = arg level_name' PNone;
          properties = arg properties' PNone
      in [(''family_name'', family_name),
          (''type_name'', type_name),
          (''location'', PDict [(''x'', x), (''y'', y), (''z'', z)]),
          (''rotation'', rotation),
          (''level_name'', level_name),
          (''properties'', py_or properties (PDict []))])"

definition place_family ::
  "runtime \<Rightarrow> bool \<Rightarrow> transport \<Rightarrow> pyval \<Rightarrow> pyval option \<Rightarrow> pyval option \<Rightarrow> pyval option
     \<Rightarrow> pyval option \<Rightarrow> pyval option \<Rightarrow> pyval option \<Rightarrow> pyval option \<Rightarrow> outcome" where
  "place_family rt ctx revit_post family_name type_name x y z rotation level_name properties =
     (let data = place_family_data family_name type_name x y z rotation level_name properties
      in case revit_post \<lparr>path = ''/place_family/'', payload = data, has_ctx = ctx,
                           timeout = None\<rparr> of
           Inl e \<Rightarrow> ([], Inl e)
         | Inr response \<Rightarrow> ([], format_response rt response))"

subsection \<open>\<open>selection_tools.py\<close>: \<open>quick_count\<close>\<close>

text \<open>
  Parameters: \<open>category\<close>, \<open>type_contains = None\<close>, \<open>type_excludes = None\<close>,
  \<open>level = None\<close>, \<open>in_view = False\<close>. The handler has no \<open>try\<close>.
\<close>

definition quick_count_data ::
  "pyval \<Rightarrow> pyval option \<Rightarrow> pyval option \<Rightarrow> pyval option \<Rightarrow> pyval option
     \<Rightarrow> (string \<times> pyval) list" where
  "quick_count_data category type_contains' type_excludes' level' in_view' =
     (let type_contains = arg type_contains' PNone;
          type_excludes = arg type_excludes' PNone;
          level = arg level' PNone;
          in_view = arg in_view' (PBool False);
          data = [(''category'', category), (''in_view'', in_view)];
          data = (if truthy type_contains
                  then py_setitem ''type_contains'' type_contains data else data);
          data = (if truthy type_excludes
                  then py_setitem ''type_excludes'' type_excludes data else data);
          data = (if truthy level then py_setitem ''level'' level data else data)
      in data)"

definition quick_count ::
  "runtime \<Rightarrow> bool \<Rightarrow> transport \<Rightarrow> pyval \<Rightarrow> pyval option \<Rightarrow> pyval option \<Rightarrow> pyval option
     \<Rightarrow> pyval option \<Rightarrow> outcome" where
  "quick_count rt ctx revit_post category type_contains type_excludes level in_view =
     (let log = (if ctx then [Info (''Quick count for category: '' @ py_str rt category)]
                 else []);
          data = quick_count_data category type_contains type_excludes level in_view
      in case revit_post \<lparr>path = ''/quick_count/'', payload = data, has_ctx = ctx,
                           timeout = None\<rparr> of
           Inl e \<Rightarrow> (log, Inl e)
         | Inr response \<Rightarrow> (log, format_response rt response))"

subsection \<open>\<open>modification_tools.py\<close>: \<open>place_view_on_sheet\<close>\<close>

text \<open>
  Parameters: \<open>sheet_id = 0\<close>, \<open>view_id = 0\<close>, \<open>sheet_number = ""\<close>,
  \<open>view_name = ""\<close>, \<open>x = 1.0\<close>, \<open>y = 0.75\<close>. The handler has no \<open>try\<close>.
\<close>

definition place_view_on_sheet_data ::
  "pyval option \<Rightarrow> pyval option \<Rightarrow> pyval option \<Rightarrow> pyval option \<Rightarrow> pyval option
     \<Rightarrow> pyval option \<Rightarrow> (string \<times> pyval) list" where
  "place_view_on_sheet_data sheet_id' view_id' sheet_number' view_name' x' y' =
     (let sheet_id = arg sheet_id' (PInt 0);
          view_id = arg view_id' (PInt 0);
          sheet_number = arg sheet_number' (PStr '''');
          view_name = arg view_name' (PStr '''');
          x = arg x' (PFloat 0x3FF0000000000000);
          y = arg y' (PFloat 0x3FE8000000000000);
          data = [(''x'', x), (''y'', y)];
          data = (if truthy sheet_id then py_setitem ''sheet_id'' sheet_id data else data);
          data = (if truthy view_id then py_setitem ''view_id'' view_id data else data);
          data = (if truthy sheet_number
                  then py_setitem ''sheet_number'' sheet_number data else data);
          data = (if truthy view_name then py_setitem ''view_name'' view_name data else data)
      in data)"

definition place_view_on_sheet ::
  "runtime \<Rightarrow> bool \<Rightarrow> transport \<Rightarrow> pyval option \<Rightarrow> pyval option \<Rightarrow> pyval option
     \<Rightarrow> pyval option \<Rightarrow> pyval option \<Rightarrow> pyval option \<Rightarrow> outcome" where
  "place_view_on_sheet rt ctx revit_post sheet_id view_id sheet_number view_name x y =
     (let identifier = py_or (arg sheet_number (PStr ''''))
                             (PStr (py_str rt (arg sheet_id (PInt 0))));
          log = (if ctx then [Info (''Placing view on sheet '' @ py_str rt identifier)] else []);
          data = place_view_on_sheet_data sheet_id view_id sheet_number view_name x y
      in case revit_post \<lparr>path = ''/place_view_on_sheet/'', payload = data, has_ctx = ctx,
                           timeout = None\<rparr> of
           Inl e \<Rightarrow> (log, Inl e)
         | Inr response \<Rightarrow> (log, format_response rt response))"

text \<open>
  A runtime for running the model on values that hold no float and need no
  \<open>repr\<close> of a \<open>str\<close>; its two functions are never reached on such values.
\<close>

definition no_tables :: runtime where
  "no_tables = \<lparr>float_repr = (\<lambda>_. []), str_repr = (\<lambda>_. [])\<rparr>"

section \<open>Properties of \<open>format_response\<close>\<close>

subsection \<open>Auxiliary facts\<close>

lemma map_of_py_setitem: "map_of (py_setitem k v d) = (map_of d)(k \<mapsto> v)"
  by (induction d) (auto simp: fun_eq_iff)

lemma map_of_three_keys:
  assumes "map_of m a = Some x" "map_of m b = Some y" "map_of m c = Some z"
    and "a \<noteq> b" "a \<noteq> c" "b \<noteq> c"
  shows "3 \<le> length m"
proof -
  have "{(a, x), (b, y), (c, z)} \<subseteq> set m"
    using assms by (auto dest: map_of_SomeD)
  then have "card {(a, x), (b, y), (c, z)} \<le> card (set m)"
    by (intro card_mono) auto
  moreover have "card {(a, x), (b, y), (c, z)} = 3"
    using assms by simp
  ultimately show ?thesis
    using card_length [of m] by linarith
qed

text \<open>When the envelope test fails the working mapping is the response itself.\<close>

lemma unwrap_no_envelope:
  "(\<And>inner. map_of m ''data'' = Some (PDict inner) \<Longrightarrow> 2 < length m) \<Longrightarrow> unwrap m = m"
  by (auto simp: unwrap_def split: option.splits pyval.splits)

lemma unwrap_envelope:
  "map_of m ''data'' = Some (PDict inner) \<Longrightarrow> length m \<le> 2 \<Longrightarrow> unwrap m = inner"
  by (simp add: unwrap_def)

text \<open>
  The recognised shapes of the working mapping \<open>w\<close>. A key that is absent or holds a
  \<open>str\<close> is written \<open>map_of w k = map_option PStr x\<close>.
\<close>

lemma format_rules_error_plain:
  assumes "map_of w ''error'' = Some e"
    and "\<not> truthy (py_get w ''traceback'' (PStr ''''))"
  shows "format_rules rt w = Inr (PStr (''=== ERROR ==='' @ newline # ''Error: '' @ py_str rt e))"
  using assms by (simp add: format_rules_def py_in_def error_report_def py_get_def py_join_def)

lemma format_rules_error_traceback:
  assumes "map_of w ''error'' = Some e"
    and "map_of w ''traceback'' = Some (PStr t)" and "t \<noteq> []"
  shows "format_rules rt w =
         Inr (PStr (''=== ERROR ==='' @ newline # ''Error: '' @ py_str rt e
                    @ newline # newline # ''=== TRACEBACK ==='' @ newline # t))"
  using assms by (simp add: format_rules_def py_in_def error_report_def py_get_def py_join_def)

text \<open>A non-empty traceback value that is no \<open>str\<close> makes the join raise.\<close>

lemma format_rules_error_not_text:
  assumes "map_of w ''error'' = Some e"
    and "map_of w ''traceback'' = Some v" and "truthy v" and "\<And>t. v \<noteq> PStr t"
  shows "format_rules rt w = Inl TypeError"
  using assms
  by (cases v)
     (auto simp: format_rules_def py_in_def error_report_def py_get_def py_join_def)

lemma format_rules_output:
  assumes "map_of w ''error'' = None" "map_of w ''output'' = Some v"
    and "map_of w ''status'' = map_option PStr st"
    and "map_of w ''health'' = map_option PStr he"
  shows "format_rules rt w = Inr v"
  using assms
  by (cases st; cases he) (simp_all add: format_rules_def py_in_def py_get_def)

lemma format_rules_status:
  assumes "map_of w ''error'' = None" "map_of w ''output'' = None"
    and "map_of w ''status'' = Some (PStr s)" "map_of w ''health'' = Some (PStr h)"
    and "str_lower s = ''active''" "str_lower h = ''healthy''"
  shows "format_rules rt w =
         Inr (PStr (''=== REVIT STATUS ==='' @ newline # ''Status: '' @ s
                    @ newline # ''Health: '' @ h
                    @ (case map_of w ''api_name'' of
                         None \<Rightarrow> [] | Some a \<Rightarrow> newline # ''API: '' @ py_str rt a)
                    @ (case map_of w ''document_title'' of
                         None \<Rightarrow> [] | Some d \<Rightarrow> newline # ''Document: '' @ py_str rt d)))"
  using assms
  by (simp add: format_rules_def py_in_def py_get_def status_report_def py_join_def
           split: option.splits)

text \<open>
  The fallback on \<open>{"count": 5}\<close> and on \<open>{"data": {"output": "x"}}\<close>: the second
  mapping is serialised, its inner \<open>output\<close> is not returned.
\<close>

lemma format_rules_count:
  "format_rules rt [(''count'', PInt 5)]
   = Inr (PStr (''{\<newline>  '' @ [dquote] @ ''count'' @ [dquote] @ '': 5\<newline>}''))"
  by (simp add: format_rules_def py_in_def py_get_def str_lower_def json_dumps_def json_nl_def
        json_string_def json_escape_def dquote_def bslash_def newline_def dec_int_def
        dec_nat.simps hex_digit_def numeral_2_eq_2)

lemma format_rules_nested:
  "format_rules rt [(''data'', PDict [(''output'', PStr ''x'')])]
   = Inr (PStr (''{\<newline>  '' @ [dquote] @ ''data'' @ [dquote] @ '': {\<newline>    ''
                @ [dquote] @ ''output'' @ [dquote] @ '': '' @ [dquote] @ ''x'' @ [dquote]
                @ ''\<newline>  }\<newline>}''))"
  by (simp add: format_rules_def py_in_def py_get_def str_lower_def json_dumps_def json_nl_def
        json_string_def json_escape_def dquote_def bslash_def newline_def
        numeral_2_eq_2 numeral_Bit0 [of "Num.Bit0 Num.One"] replicate_add)

subsection \<open>The error report\<close>

text \<open>
  The report when the traceback is text. With a non-empty string under \<open>error\<close> after
  the envelope unwrap, the result is the fixed header line and the line \<open>Error: \<close> with
  the message when \<open>traceback\<close> is absent or holds an empty value, and the same followed
  by a traceback header and the text as it is when \<open>traceback\<close> is a non-empty string.
\<close>

theorem error_report_shape:
  assumes "map_of (unwrap m) ''error'' = Some (PStr msg)"
    and "msg \<noteq> []"
  shows "(\<not> truthy (py_get (unwrap m) ''traceback'' (PStr '''')) \<longrightarrow>
            format_response rt (PDict m)
            = Inr (PStr (''=== ERROR ==='' @ newline # ''Error: '' @ msg)))
       \<and> (\<forall>t. map_of (unwrap m) ''traceback'' = Some (PStr t) \<and> t \<noteq> [] \<longrightarrow>
            format_response rt (PDict m)
            = Inr (PStr (''=== ERROR ==='' @ newline # ''Error: '' @ msg
                         @ newline # newline # ''=== TRACEBACK ==='' @ newline # t)))"
  using format_rules_error_plain [OF assms(1), of rt]
    format_rules_error_traceback [OF assms(1), of _ rt]
  by simp

theorem error_report_shape_witness:
  "(map_of (unwrap [(''error'', PStr ''Element not found'')]) ''error''
      = Some (PStr ''Element not found'')
    \<and> ''Element not found'' \<noteq> []
    \<and> \<not> truthy (py_get (unwrap [(''error'', PStr ''Element not found'')]) ''traceback''
                  (PStr ''''))
    \<and> format_response no_tables (PDict [(''error'', PStr ''Element not found'')])
      = Inr (PStr ''=== ERROR ===\<newline>Error: Element not found''))
   \<and> (map_of (unwrap [(''data'', PDict [(''error'', PStr ''boom''), (''traceback'', PStr ''line 1'')])])
          ''error'' = Some (PStr ''boom'')
    \<and> ''boom'' \<noteq> []
    \<and> map_of (unwrap [(''data'', PDict [(''error'', PStr ''boom''), (''traceback'', PStr ''line 1'')])])
          ''traceback'' = Some (PStr ''line 1'')
    \<and> ''line 1'' \<noteq> []
    \<and> format_response no_tables
          (PDict [(''data'', PDict [(''error'', PStr ''boom''), (''traceback'', PStr ''line 1'')])])
      = Inr (PStr ''=== ERROR ===\<newline>Error: boom\<newline>\<newline>=== TRACEBACK ===\<newline>line 1''))"
proof -
  let ?m = "[(''error'', PStr ''Element not found'')]"
  let ?n = "[(''data'', PDict [(''error'', PStr ''boom''), (''traceback'', PStr ''line 1'')])]"
  have a1: "map_of (unwrap ?m) ''error'' = Some (PStr ''Element not found'')"
    by (simp add: unwrap_def)
  have a2: "''Element not found'' \<noteq> []" by simp
  have a3: "\<not> truthy (py_get (unwrap ?m) ''traceback'' (PStr ''''))"
    by (simp add: unwrap_def py_get_def)
  have b1: "map_of (unwrap ?n) ''error'' = Some (PStr ''boom'')"
    by (simp add: unwrap_def)
  have b2: "''boom'' \<noteq> []" by simp
  have b3: "map_of (unwrap ?n) ''traceback'' = Some (PStr ''line 1'')"
    by (simp add: unwrap_def)
  show ?thesis
    using a1 a2 a3 b1 b2 b3
      error_report_shape [OF a1 a2, of no_tables]
      error_report_shape [OF b1 b2, of no_tables]
    by (simp add: newline_def)
qed

text \<open>
  Claim C1. For every response that is a mapping and, after the envelope unwrap, contains
  an \<open>error\<close> key whose value is a non-empty string, \<open>format_response\<close> should return
  a report of several lines: the fixed header line, then the line \<open>Error: \<close> with the
  message, and, if and only if the mapping also has a \<open>traceback\<close> key with a non-empty
  value, a traceback header line followed by the traceback text as it is. The code appends
  the traceback value to the parts without \<open>str\<close> or \<open>format\<close>, unlike the error
  value: when the non-empty value is a list of lines, a number or \<open>true\<close>, also inside
  an envelope, \<open>"\n".join\<close> raises \<open>TypeError\<close> and no report is returned.
\<close>

theorem traceback_not_text_raises:
  "(map_of (unwrap [(''error'', PStr ''boom''), (''traceback'', PList [PStr ''line 1''])])
      ''error'' = Some (PStr ''boom'')
    \<and> ''boom'' \<noteq> []
    \<and> truthy (py_get (unwrap [(''error'', PStr ''boom''),
                              (''traceback'', PList [PStr ''line 1''])])
                 ''traceback'' (PStr ''''))
    \<and> format_response no_tables
         (PDict [(''error'', PStr ''boom''), (''traceback'', PList [PStr ''line 1''])])
       = Inl TypeError)
   \<and> format_response no_tables (PDict [(''error'', PStr ''boom''), (''traceback'', PInt 1)])
       = Inl TypeError
   \<and> format_response no_tables (PDict [(''error'', PStr ''boom''), (''traceback'', PBool True)])
       = Inl TypeError
   \<and> format_response no_tables
        (PDict [(''data'', PDict [(''error'', PStr ''boom''),
                                  (''traceback'', PDict [(''line'', PInt 3)])])])
       = Inl TypeError"
  by (simp add: unwrap_def format_rules_def py_in_def error_report_def py_get_def py_join_def)




text \<open>
  Claim C6. For a mapping whose \<open>error\<close> value is the empty string (or \<open>None\<close>) the
  message line should carry the text \<open>Unknown error occurred\<close>. The default of
  \<open>response.get("error", ...)\<close> is only used for an absent key, and the branch is entered
  only when the key is present: the message line carries the value itself.
\<close>

theorem empty_error_message:
  "format_response no_tables (PDict [(''error'', PStr '''')])
     = Inr (PStr ''=== ERROR ===\<newline>Error: '')
   \<and> format_response no_tables (PDict [(''error'', PStr '''')])
     \<noteq> Inr (PStr ''=== ERROR ===\<newline>Error: Unknown error occurred'')
   \<and> format_response no_tables (PDict [(''error'', PNone)])
     = Inr (PStr ''=== ERROR ===\<newline>Error: None'')"
  by (simp add: unwrap_def format_rules_def py_in_def error_report_def py_get_def py_join_def
        newline_def)

subsection \<open>The execution output\<close>

text \<open>
  Claim C2, as amended. For every mapping that, after the envelope unwrap, contains an
  \<open>output\<close> key and no \<open>error\<close> key, and whose \<open>status\<close> and \<open>health\<close> values are
  strings where present, \<open>format_response\<close> returns the value of \<open>output\<close> as it is.
\<close>

theorem output_identity:
  assumes "map_of (unwrap m) ''error'' = None"
    and "map_of (unwrap m) ''output'' = Some v"
    and "map_of (unwrap m) ''status'' = map_option PStr st"
    and "map_of (unwrap m) ''health'' = map_option PStr he"
  shows "format_response rt (PDict m) = Inr v"
  using format_rules_output [OF assms, of rt] by simp

theorem output_identity_witness:
  "map_of (unwrap [(''output'', PStr (''Document title: Test\<newline>  walls:  12 '' @ [CHR 0xC3, CHR 0xA9])),
                   (''status'', PStr ''success'')]) ''error'' = None
   \<and> map_of (unwrap [(''output'', PStr (''Document title: Test\<newline>  walls:  12 '' @ [CHR 0xC3, CHR 0xA9])),
                      (''status'', PStr ''success'')]) ''output''
       = Some (PStr (''Document title: Test\<newline>  walls:  12 '' @ [CHR 0xC3, CHR 0xA9]))
   \<and> map_of (unwrap [(''output'', PStr (''Document title: Test\<newline>  walls:  12 '' @ [CHR 0xC3, CHR 0xA9])),
                      (''status'', PStr ''success'')]) ''status''
       = map_option PStr (Some ''success'')
   \<and> map_of (unwrap [(''output'', PStr (''Document title: Test\<newline>  walls:  12 '' @ [CHR 0xC3, CHR 0xA9])),
                      (''status'', PStr ''success'')]) ''health''
       = map_option PStr None
   \<and> format_response no_tables
         (PDict [(''output'', PStr (''Document title: Test\<newline>  walls:  12 '' @ [CHR 0xC3, CHR 0xA9])),
                 (''status'', PStr ''success'')])
       = Inr (PStr (''Document title: Test\<newline>  walls:  12 '' @ [CHR 0xC3, CHR 0xA9]))"
proof -
  let ?out = "PStr (''Document title: Test\<newline>  walls:  12 '' @ [CHR 0xC3, CHR 0xA9])"
  let ?m = "[(''output'', ?out), (''status'', PStr ''success'')]"
  have h1: "map_of (unwrap ?m) ''error'' = None" by (simp add: unwrap_def)
  have h2: "map_of (unwrap ?m) ''output'' = Some ?out" by (simp add: unwrap_def)
  have h3: "map_of (unwrap ?m) ''status'' = map_option PStr (Some ''success'')"
    by (simp add: unwrap_def)
  have h4: "map_of (unwrap ?m) ''health'' = map_option PStr None"
    by (simp add: unwrap_def)
  show ?thesis
    using h1 h2 h3 h4 output_identity [OF h1 h2 h3 h4, of no_tables] by simp
qed

text \<open>
  The claim as first stated fails on \<open>{"output": "done", "data": {}}\<close>, which the
  envelope rule replaces by its empty inner mapping, and on
  \<open>{"output": "done", "status": 200}\<close>, where \<open>.lower()\<close> is called on an \<open>int\<close>
  before \<open>output\<close> is looked at.
\<close>

theorem output_identity_counterexample:
  "(py_in ''output'' [(''output'', PStr ''done''), (''data'', PDict [])]
    \<and> \<not> py_in ''error'' [(''output'', PStr ''done''), (''data'', PDict [])]
    \<and> map_of [(''output'', PStr ''done''), (''data'', PDict [])] ''output'' = Some (PStr ''done'')
    \<and> format_response no_tables (PDict [(''output'', PStr ''done''), (''data'', PDict [])])
        = Inr (PStr ''{}''))
   \<and> (py_in ''output'' [(''output'', PStr ''done''), (''status'', PInt 200)]
    \<and> \<not> py_in ''error'' [(''output'', PStr ''done''), (''status'', PInt 200)]
    \<and> format_response no_tables (PDict [(''output'', PStr ''done''), (''status'', PInt 200)])
        = Inl AttributeError)"
  by (simp add: py_in_def unwrap_def format_rules_def py_get_def str_lower_def json_dumps_def)

subsection \<open>The envelope\<close>

text \<open>
  Claim C3. For every mapping whose \<open>data\<close> key holds a mapping and that has at most
  one other top-level key, \<open>format_response\<close> gives what the rules after the unwrap
  (error, output, status, fallback) give on the inner mapping, which is not unwrapped a
  second time.
\<close>

theorem envelope_transparency:
  assumes "map_of m ''data'' = Some (PDict inner)"
    and "length m \<le> 2"
  shows "format_response rt (PDict m) = format_rules rt inner"
  using unwrap_envelope [OF assms] by simp

theorem envelope_transparency_witness:
  "(map_of [(''data'', PDict [(''count'', PInt 5)]), (''request_id'', PStr ''abc'')] ''data''
      = Some (PDict [(''count'', PInt 5)])
    \<and> length [(''data'', PDict [(''count'', PInt 5)]), (''request_id'', PStr ''abc'')] \<le> 2
    \<and> format_response no_tables
          (PDict [(''data'', PDict [(''count'', PInt 5)]), (''request_id'', PStr ''abc'')])
        = Inr (PStr (''{\<newline>  '' @ [dquote] @ ''count'' @ [dquote] @ '': 5\<newline>}'')))
   \<and> (map_of [(''data'', PDict [(''data'', PDict [(''output'', PStr ''x'')])])] ''data''
      = Some (PDict [(''data'', PDict [(''output'', PStr ''x'')])])
    \<and> length [(''data'', PDict [(''data'', PDict [(''output'', PStr ''x'')])])] \<le> 2
    \<and> format_response no_tables
          (PDict [(''data'', PDict [(''data'', PDict [(''output'', PStr ''x'')])])])
        = Inr (PStr (''{\<newline>  '' @ [dquote] @ ''data'' @ [dquote] @ '': {\<newline>    ''
                     @ [dquote] @ ''output'' @ [dquote] @ '': '' @ [dquote] @ ''x'' @ [dquote]
                     @ ''\<newline>  }\<newline>}'')))"
proof -
  let ?m = "[(''data'', PDict [(''count'', PInt 5)]), (''request_id'', PStr ''abc'')]"
  let ?n = "[(''data'', PDict [(''data'', PDict [(''output'', PStr ''x'')])])]"
  have a1: "map_of ?m ''data'' = Some (PDict [(''count'', PInt 5)])" by simp
  have a2: "length ?m \<le> 2" by simp
  have b1: "map_of ?n ''data'' = Some (PDict [(''data'', PDict [(''output'', PStr ''x'')])])"
    by simp
  have b2: "length ?n \<le> 2" by simp
  show ?thesis
    using a1 a2 b1 b2
      envelope_transparency [OF a1 a2, of no_tables] format_rules_count [of no_tables]
      envelope_transparency [OF b1 b2, of no_tables] format_rules_nested [of no_tables]
    by simp
qed

subsection \<open>The status report\<close>

text \<open>
  Claim C5. For every mapping with no \<open>error\<close> key and no \<open>output\<close> key whose
  \<open>status\<close> equals \<open>active\<close> and whose \<open>health\<close> equals \<open>healthy\<close>, compared without
  regard to case, the output is exactly a header line, a status line, a health line, then
  an API line if and only if \<open>api_name\<close> is present, then a document line if and only if
  \<open>document_title\<close> is present, in this order; no other field of the mapping appears.
\<close>

theorem status_shape:
  assumes "map_of m ''error'' = None" "map_of m ''output'' = None"
    and "map_of m ''status'' = Some (PStr s)" "map_of m ''health'' = Some (PStr h)"
    and "str_lower s = ''active''" "str_lower h = ''healthy''"
  shows "format_response rt (PDict m) =
         Inr (PStr (''=== REVIT STATUS ==='' @ newline # ''Status: '' @ s
                    @ newline # ''Health: '' @ h
                    @ (case map_of m ''api_name'' of
                         None \<Rightarrow> [] | Some a \<Rightarrow> newline # ''API: '' @ py_str rt a)
                    @ (case map_of m ''document_title'' of
                         None \<Rightarrow> [] | Some d \<Rightarrow> newline # ''Document: '' @ py_str rt d)))"
proof -
  have "2 < length m" if "map_of m ''data'' = Some (PDict inner)" for inner
    using map_of_three_keys [OF assms(3) assms(4) that] by simp
  then have "unwrap m = m"
    by (rule unwrap_no_envelope)
  then show ?thesis
    using format_rules_status [OF assms, of rt] by simp
qed

theorem status_shape_witness:
  "map_of [(''status'', PStr ''Active''), (''health'', PStr ''Healthy''),
           (''api_name'', PStr ''RevitAPI''), (''uptime'', PInt 42)] ''error'' = None
   \<and> map_of [(''status'', PStr ''Active''), (''health'', PStr ''Healthy''),
           (''api_name'', PStr ''RevitAPI''), (''uptime'', PInt 42)] ''output'' = None
   \<and> map_of [(''status'', PStr ''Active''), (''health'', PStr ''Healthy''),
           (''api_name'', PStr ''RevitAPI''), (''uptime'', PInt 42)] ''status''
       = Some (PStr ''Active'')
   \<and> map_of [(''status'', PStr ''Active''), (''health'', PStr ''Healthy''),
           (''api_name'', PStr ''RevitAPI''), (''uptime'', PInt 42)] ''health''
       = Some (PStr ''Healthy'')
   \<and> str_lower ''Active'' = ''active''
   \<and> str_lower ''Healthy'' = ''healthy''
   \<and> format_response no_tables
        (PDict [(''status'', PStr ''Active''), (''health'', PStr ''Healthy''),
                (''api_name'', PStr ''RevitAPI''), (''uptime'', PInt 42)])
       = Inr (PStr ''=== REVIT STATUS ===\<newline>Status: Active\<newline>Health: Healthy\<newline>API: RevitAPI'')"
proof -
  let ?m = "[(''status'', PStr ''Active''), (''health'', PStr ''Healthy''),
             (''api_name'', PStr ''RevitAPI''), (''uptime'', PInt 42)]"
  have h1: "map_of ?m ''error'' = None" by simp
  have h2: "map_of ?m ''output'' = None" by simp
  have h3: "map_of ?m ''status'' = Some (PStr ''Active'')" by simp
  have h4: "map_of ?m ''health'' = Some (PStr ''Healthy'')" by simp
  have h5: "str_lower ''Active'' = ''active''" by (simp add: str_lower_def lower_char_def)
  have h6: "str_lower ''Healthy'' = ''healthy''" by (simp add: str_lower_def lower_char_def)
  show ?thesis
    using h1 h2 h3 h4 h5 h6 status_shape [OF h1 h2 h3 h4 h5 h6, of no_tables]
    by (simp add: newline_def)
qed

subsection \<open>Responses that are no mapping, and totality\<close>

text \<open>
  Claim C7. For every response that is not a mapping \<open>format_response\<close> returns its
  string form \<open>str(response)\<close>; a response that is a plain string is returned unchanged.
\<close>

theorem non_mapping_identity:
  "((\<forall>d. response \<noteq> PDict d) \<longrightarrow>
      format_response rt response = Inr (PStr (py_str rt response)))
   \<and> format_response rt (PStr s) = Inr (PStr s)"
  by (cases response) simp_all

theorem non_mapping_identity_witness:
  "(\<forall>d. PInt 404 \<noteq> PDict d)
   \<and> format_response no_tables (PInt 404) = Inr (PStr ''404'')
   \<and> format_response no_tables (PStr ''Connection refused'') = Inr (PStr ''Connection refused'')"
proof -
  have h: "\<forall>d. PInt 404 \<noteq> PDict d" by simp
  have v: "py_str no_tables (PInt 404) = ''404''"
    by (simp add: dec_int_def dec_nat.simps hex_digit_def)
  show ?thesis
    using h v non_mapping_identity [of "PInt 404" no_tables "''Connection refused''"] by simp
qed

text \<open>
  Claim C8. For every backend response, also one with values that are no strings under
  \<open>status\<close>, \<open>health\<close> or \<open>output\<close>, \<open>format_response\<close> should return normally and
  return a string. It raises \<open>AttributeError\<close> on a numeric \<open>status\<close> and on a null
  \<open>health\<close>, returns the integer of a numeric \<open>output\<close>, and raises \<open>TypeError\<close> on a
  \<open>traceback\<close> that is a list.
\<close>

theorem format_response_not_total:
  "format_response no_tables (PDict [(''status'', PInt 200)]) = Inl AttributeError
   \<and> format_response no_tables (PDict [(''status'', PStr ''ok''), (''health'', PNone)])
       = Inl AttributeError
   \<and> format_response no_tables (PDict [(''output'', PInt 5)]) = Inr (PInt 5)
   \<and> format_response no_tables
        (PDict [(''error'', PStr ''boom''), (''traceback'', PList [PStr ''line 1''])])
       = Inl TypeError"
  by (simp add: unwrap_def format_rules_def py_in_def error_report_def py_get_def py_join_def
        str_lower_def lower_char_def)

section \<open>Properties of the tool handlers\<close>

text \<open>
  \<open>execute_revit_code\<close> turns an exception of the three classes into a text result and,
  with a context, an error log entry after the informational one.
\<close>

lemma execute_revit_code_catches:
  "caught e = Some msg \<Longrightarrow>
   execute_revit_code rt ctx (\<lambda>_. Inl e) code description use_transaction
   = ((if ctx
       then [Info (''Executing code (''
                   @ (if truthy (arg use_transaction (PBool True))
                      then ''with transaction'' else ''without transaction'')
                   @ ''): '' @ py_str rt (arg description (PStr ''Code execution''))),
             Error (''Error during code execution: '' @ msg)]
       else []),
      Inr (PStr (''Error during code execution: '' @ msg)))"
  by (simp add: execute_revit_code_def Let_def)

text \<open>
  Claim C9. Every registered handler should catch a recoverable error raised by its
  transport call, log it when a context is present and return a text. \<open>place_family\<close>
  and \<open>quick_count\<close> have no handler for exceptions: whatever the transport raises, a
  \<open>ConnectionError\<close> for one, leaves the handler, and no error entry is logged.
\<close>

theorem handlers_propagate:
  "place_family rt ctx (\<lambda>_. Inl e) family_name type_name x y z rotation level_name properties
     = ([], Inl e)
   \<and> quick_count rt ctx (\<lambda>_. Inl e) category type_contains type_excludes level in_view
     = (if ctx then [Info (''Quick count for category: '' @ py_str rt category)] else [], Inl e)"
  by (simp add: place_family_def quick_count_def Let_def)

text \<open>
  Claim C10, as amended. A parameter that the handler adds to the payload under a truth
  test is left out when the caller does not supply it, never sent as null:
  \<open>type_contains\<close>, \<open>type_excludes\<close> (a list) and \<open>level\<close> of \<open>quick_count\<close>;
  \<open>sheet_id\<close>, \<open>view_id\<close>, \<open>sheet_number\<close> and \<open>view_name\<close> of
  \<open>place_view_on_sheet\<close>. A parameter that the handler always puts in the payload is
  sent with its declared default: \<open>in_view\<close> as \<open>False\<close>, \<open>x\<close> as \<open>1.0\<close>, \<open>y\<close> as
  \<open>0.75\<close>; the unsupplied \<open>properties\<close> of \<open>place_family\<close> is sent as an empty dict.
\<close>

theorem unsupplied_parameters:
  "(\<not> py_in ''type_contains'' (quick_count_data category None type_excludes level in_view)
    \<and> \<not> py_in ''type_excludes'' (quick_count_data category type_contains None level in_view)
    \<and> \<not> py_in ''level'' (quick_count_data category type_contains type_excludes None in_view)
    \<and> map_of (quick_count_data category type_contains type_excludes level None) ''in_view''
        = Some (PBool False))
   \<and> (\<not> py_in ''sheet_id'' (place_view_on_sheet_data None view_id sheet_number view_name x y)
    \<and> \<not> py_in ''view_id'' (place_view_on_sheet_data sheet_id None sheet_number view_name x y)
    \<and> \<not> py_in ''sheet_number'' (place_view_on_sheet_data sheet_id view_id None view_name x y)
    \<and> \<not> py_in ''view_name'' (place_view_on_sheet_data sheet_id view_id sheet_number None x y)
    \<and> map_of (place_view_on_sheet_data sheet_id view_id sheet_number view_name None y) ''x''
        = Some (PFloat 0x3FF0000000000000)
    \<and> map_of (place_view_on_sheet_data sheet_id view_id sheet_number view_name x None) ''y''
        = Some (PFloat 0x3FE8000000000000))
   \<and> map_of (place_family_data family_name type_name px py pz rotation level_name None)
        ''properties'' = Some (PDict [])"
  by (simp add: quick_count_data_def place_view_on_sheet_data_def place_family_data_def
        py_in_def arg_def py_or_def Let_def map_of_py_setitem)

theorem unsupplied_parameters_witness:
  "place_view_on_sheet_data None None (Some (PStr ''A-101'')) (Some (PStr ''Level 1'')) None None
     = [(''x'', PFloat 0x3FF0000000000000), (''y'', PFloat 0x3FE8000000000000),
        (''sheet_number'', PStr ''A-101''), (''view_name'', PStr ''Level 1'')]
   \<and> \<not> py_in ''sheet_id''
         (place_view_on_sheet_data None None (Some (PStr ''A-101'')) (Some (PStr ''Level 1''))
            None None)
   \<and> map_of (place_family_data (PStr ''Chair'') None None None None None None None)
         ''properties'' = Some (PDict [])"
proof -
  have "place_view_on_sheet_data None None (Some (PStr ''A-101'')) (Some (PStr ''Level 1''))
          None None
        = [(''x'', PFloat 0x3FF0000000000000), (''y'', PFloat 0x3FE8000000000000),
           (''sheet_number'', PStr ''A-101''), (''view_name'', PStr ''Level 1'')]"
    by (simp add: place_view_on_sheet_data_def arg_def Let_def)
  then show ?thesis
    using unsupplied_parameters
      [where view_id = None and sheet_number = "Some (PStr ''A-101'')"
         and view_name = "Some (PStr ''Level 1'')" and x = None and y = None
         and family_name = "PStr ''Chair''" and type_name = None and px = None and py = None
         and pz = None and rotation = None and level_name = None]
    by simp
qed

text \<open>
  The claim as first stated fails on the call \<open>quick_count("Windows")\<close>: the scalar
  \<open>in_view\<close> is not supplied and its key is in the payload, and the list
  \<open>type_excludes\<close> is not supplied and is left out instead of being sent empty.
\<close>

theorem unsupplied_parameters_counterexample:
  "quick_count_data (PStr ''Windows'') None None None None
     = [(''category'', PStr ''Windows''), (''in_view'', PBool False)]
   \<and> py_in ''in_view'' (quick_count_data (PStr ''Windows'') None None None None)
   \<and> \<not> py_in ''type_excludes'' (quick_count_data (PStr ''Windows'') None None None None)"
  by (simp add: quick_count_data_def py_in_def arg_def Let_def)

text \<open>
  \<open>place_family("Chair")\<close>: the keys \<open>type_name\<close> and \<open>level_name\<close> are always in
  the payload, with \<open>None\<close> when the caller supplies nothing.
\<close>

lemma place_family_data_defaults:
  "place_family_data (PStr ''Chair'') None None None None None None None
   = [(''family_name'', PStr ''Chair''),
      (''type_name'', PNone),
      (''location'', PDict [(''x'', PFloat 0), (''y'', PFloat 0), (''z'', PFloat 0)]),
      (''rotation'', PFloat 0),
      (''level_name'', PNone),
      (''properties'', PDict [])]"
  by (simp add: place_family_data_def arg_def py_or_def)

end
